theory Spec2Isabelle
  imports Complex_Main "HOL-Library.List_Lexorder" "HOL-Library.Char_ord"
begin

section \<open>The SmartAdServer bid adapter\<close>

text \<open>
  A shallow embedding of package \<open>smartadserver\<close> (\<open>BuildBidder\<close>, \<open>MakeRequests\<close>,
  \<open>MakeBids\<close>) and of the types of package \<open>adapter\<close> it uses.

  Conventions of the embedding:
  \<^item> a Go \<open>error\<close> is its message; \<open>fmt.Errorf\<close> builds the message;
  \<^item> a nil slice and an empty slice are both the empty list, a nil pointer is \<open>None\<close>;
  \<^item> \<open>[]byte\<close> and Go strings are \<open>string\<close> (a list of bytes);
  \<^item> a run of the source is either a return or a run-time panic (\<open>Panic\<close>);
  \<^item> \<open>*openrtb2.Site\<close> is the one pointer the adapter writes through, so Site objects
    live in an explicit heap and a request holds an address; the Banner pointer of an
    impression is only compared with nil and replaced in a local copy, so it is an
    optional value;
  \<^item> the calls to \<open>log.Printf\<close> are left out: the claims are about the returned values
    and the caller's memory;
  \<^item> the libraries the source calls but does not contain are parameters of the
    functions: \<open>yaml.Unmarshal\<close> at \<open>PBSConfig\<close>, \<open>json.Marshal\<close> at \<open>BidRequest\<close>,
    \<open>json.Unmarshal\<close> at \<open>BidResponse\<close>, and the string quoting of \<open>encoding/json\<close>.
    \<open>json.Marshal\<close> at the untyped extension map is written out below;
  \<^item> the integers of the source are only copied, compared with constants and
    printed, never computed with, so they are \<open>int\<close>; \<open>BidFloor\<close> is only assigned the
    literal \<open>0.01\<close>, so it is \<open>real\<close>.
\<close>

subsection \<open>Errors and formatting\<close>

datatype error = Error string

text \<open>\<open>err.Error()\<close>, which is what the verbs \<open>%v\<close> and \<open>%s\<close> print of an error.\<close>

fun message :: "error \<Rightarrow> string" where
  "message (Error m) = m"

text \<open>The decimal digits of a natural number, and the verb \<open>%d\<close> on an integer.\<close>

fun digits :: "nat \<Rightarrow> string" where
  "digits n =
     (if n < 10 then [''0123456789'' ! n]
      else digits (n div 10) @ [''0123456789'' ! (n mod 10)])"

definition fmt_d :: "int \<Rightarrow> string" where
  "fmt_d i = (if i < 0 then ''-'' @ digits (nat (- i)) else digits (nat i))"

subsection \<open>\<open>json.Marshal\<close> of an untyped value\<close>

text \<open>
  The Go values that an \<open>interface{}\<close> handed to \<open>json.Marshal\<close> can hold, as far as the
  adapter builds them: integers, strings and maps with string keys. \<open>GUnsupported\<close>
  stands for every value the encoder rejects (a channel, a function, a complex number,
  a float that is not finite); it is what makes the encoder fallible.
\<close>

datatype go_value =
    GInt int
  | GString string
  | GMap "(string \<times> go_value) list"
  | GUnsupported

text \<open>The members of an object, each \<open>key:text\<close> with the key quoted, separated by commas.\<close>

fun join_entries :: "(string \<Rightarrow> string) \<Rightarrow> (string \<times> string) list \<Rightarrow> string" where
  "join_entries qs [] = []"
| "join_entries qs [(k, t)] = qs k @ '':'' @ t"
| "join_entries qs ((k, t) # kts) = qs k @ '':'' @ t @ '','' @ join_entries qs kts"

text \<open>
  \<open>json.Marshal\<close>: an integer is printed in decimal, a string is quoted by \<open>qs\<close> (the
  encoder's string quoting, which escapes and never fails), a map is an object whose
  members are sorted by key (bytewise), and an unsupported value is an error.
\<close>

function (sequential) json_Marshal :: "(string \<Rightarrow> string) \<Rightarrow> go_value \<Rightarrow> error + string"
  and marshal_entries ::
    "(string \<Rightarrow> string) \<Rightarrow> (string \<times> go_value) list \<Rightarrow> error + (string \<times> string) list"
where
  "json_Marshal qs (GInt i) = Inr (fmt_d i)"
| "json_Marshal qs (GString s) = Inr (qs s)"
| "json_Marshal qs GUnsupported = Inl (Error ''json: unsupported type'')"
| "json_Marshal qs (GMap kvs) =
     (case marshal_entries qs kvs of
        Inl err \<Rightarrow> Inl err
      | Inr kts \<Rightarrow> Inr (''{'' @ join_entries qs (sort_key fst kts) @ ''}''))"
| "marshal_entries qs [] = Inr []"
| "marshal_entries qs ((k, v) # kvs) =
     (case json_Marshal qs v of
        Inl err \<Rightarrow> Inl err
      | Inr t \<Rightarrow>
          (case marshal_entries qs kvs of
             Inl err \<Rightarrow> Inl err
           | Inr kts \<Rightarrow> Inr ((k, t) # kts)))"
  by pat_completeness auto
termination
  by (relation "measure (\<lambda>x. case x of
        Inl (qs, v) \<Rightarrow> size v
      | Inr (qs, kvs) \<Rightarrow> size_list (size_prod (\<lambda>_. 0) size) kvs)") auto

text \<open>
  The values that are nestings of maps with only integers and strings at the leaves.
\<close>

function (sequential) ints_and_strings :: "go_value \<Rightarrow> bool"
  and entries_ints_and_strings :: "(string \<times> go_value) list \<Rightarrow> bool"
where
  "ints_and_strings (GInt i) = True"
| "ints_and_strings (GString s) = True"
| "ints_and_strings GUnsupported = False"
| "ints_and_strings (GMap kvs) = entries_ints_and_strings kvs"
| "entries_ints_and_strings [] = True"
| "entries_ints_and_strings ((k, v) # kvs) =
     (if ints_and_strings v then entries_ints_and_strings kvs else False)"
  by pat_completeness auto
termination
  by (relation "measure (\<lambda>x. case x of
        Inl v \<Rightarrow> size v
      | Inr kvs \<Rightarrow> size_list (size_prod (\<lambda>_. 0) size) kvs)") auto

subsection \<open>The data model\<close>

text \<open>
  The structs of \<open>openrtb2\<close> are not part of the repository. Each record lists the fields
  the adapter reads or writes under their Go names; the fields it never touches are
  kept together in one component (\<open>[]\<close> when they all have their zero value).
\<close>

type_synonym other_fields = "(string \<times> string) list"

type_synonym addr = nat

record format =
  W :: int
  H :: int

record banner =
  Format :: "format list"
  banner_other :: other_fields

record imp =
  ID :: string
  Banner :: "banner option"
  BidFloor :: real
  BidFloorCur :: string
  Ext :: string
  imp_other :: other_fields

text \<open>\<open>openrtb2.Site\<close>; the field \<open>Domain\<close> is \<open>Domain'\<close> here.\<close>

record site =
  Domain' :: string
  Page :: string
  site_other :: other_fields

text \<open>
  \<open>openrtb2.BidRequest\<close>. In memory \<open>Site\<close> is a pointer (\<open>addr bid_request\<close>); the value
  the JSON encoder sees has the Site itself (\<open>site bid_request\<close>).
\<close>

record 's bid_request =
  Imp :: "imp list"
  Site :: "'s option"
  Test :: int
  TMax :: int
  AT :: int
  request_other :: other_fields

text \<open>The Site objects in memory, and the next address the allocator hands out.\<close>

record heap =
  site_at :: "addr \<Rightarrow> site"
  free :: addr

text \<open>\<open>adapter.HttpRequest\<close> and \<open>adapter.HttpResponse\<close> (fields \<open>Body\<close>, \<open>Headers\<close> primed).\<close>

record http_request =
  Method :: string
  Uri :: string
  Body :: string
  Headers :: "string \<rightharpoonup> string"

record http_response =
  StatusCode :: int
  Body' :: string
  Headers' :: "string \<rightharpoonup> string"

text \<open>
  \<open>openrtb2.SeatBid\<close> and \<open>openrtb2.BidResponse\<close>; \<open>'b\<close> is \<open>openrtb2.Bid\<close>, which the
  adapter never looks into.
\<close>

record 'b seat_bid =
  Bid :: "'b list"
  seat_other :: other_fields

record 'b bid_response =
  SeatBid :: "'b seat_bid list"
  response_other :: other_fields

text \<open>\<open>adapter.TypedBid\<close> (field \<open>Bid\<close> primed) and \<open>adapter.BidderResponse\<close>.\<close>

record 'b typed_bid =
  Bid' :: 'b
  BidType :: string

record 'b bidder_response =
  Bids :: "'b typed_bid list"

text \<open>
  \<open>PBSConfig\<close> and \<open>SmartAdServerAdapter\<close>. The anonymous struct \<open>DefaultConfig\<close> is the
  same in both; the outer \<open>PlatformID\<close> of the configuration is primed.
\<close>

record default_config =
  SiteID :: int
  PageID :: int
  FormatID :: int
  PlatformID :: int

record smartadserver_config =
  Enabled :: bool
  Endpoint :: string
  PlatformID' :: int
  DefaultConfig :: default_config

record adapters_config =
  SmartAdServer :: smartadserver_config

record PBSConfig =
  Adapters :: adapters_config

record SmartAdServerAdapter =
  endpoint :: string
  platformID :: int
  defaultConfig :: default_config

subsection \<open>\<open>BuildBidder\<close>\<close>

definition BuildBidder ::
  "(string \<Rightarrow> error + PBSConfig) \<Rightarrow> string \<Rightarrow> error + SmartAdServerAdapter" where
  "BuildBidder yaml_Unmarshal config =
     (case yaml_Unmarshal config of
        Inl err \<Rightarrow> Inl (Error (''error parsing PBS config: '' @ message err))
      | Inr pbsConfig \<Rightarrow>
          if \<not> Enabled (SmartAdServer (Adapters pbsConfig))
          then Inl (Error ''SmartAdServer adapter is not enabled in config'')
          else Inr \<lparr>endpoint = Endpoint (SmartAdServer (Adapters pbsConfig)),
                    platformID = PlatformID' (SmartAdServer (Adapters pbsConfig)),
                    defaultConfig =
                      \<lparr>SiteID = SiteID (DefaultConfig (SmartAdServer (Adapters pbsConfig))),
                       PageID = PageID (DefaultConfig (SmartAdServer (Adapters pbsConfig))),
                       FormatID = FormatID (DefaultConfig (SmartAdServer (Adapters pbsConfig))),
                       PlatformID =
                         PlatformID (DefaultConfig (SmartAdServer (Adapters pbsConfig)))\<rparr>\<rparr>)"

subsection \<open>\<open>MakeRequests\<close>\<close>

datatype requests_outcome =
    Returned "http_request list" "error list" heap
  | Panic

text \<open>The extension map of lines 89 to 101, with the keys in the order of the source.\<close>

definition impExt :: "SmartAdServerAdapter \<Rightarrow> string \<Rightarrow> go_value" where
  "impExt a domain =
     GMap [(''prebid'',
       GMap [(''bidder'',
         GMap [(''smartadserver'',
           GMap [(''siteId'', GInt (SiteID (defaultConfig a))),
                 (''networkId'', GInt (platformID a)),
                 (''pageId'', GInt (PageID (defaultConfig a))),
                 (''formatId'', GInt (FormatID (defaultConfig a))),
                 (''target'', GString ''testing=prebid''),
                 (''domain'', GString domain)])])])]"

text \<open>Lines 110 to 123: the extension, the default banner, the bid floor.\<close>

definition enrich_imp :: "imp \<Rightarrow> string \<Rightarrow> imp" where
  "enrich_imp imp0 impExtJSON =
     (let imp1 = imp0\<lparr>Ext := impExtJSON\<rparr>;
          imp2 = (if Banner imp1 = None
                  then imp1\<lparr>Banner := Some \<lparr>Format = [\<lparr>W = 728, H = 90\<rparr>], banner_other = []\<rparr>\<rparr>
                  else imp1)
      in imp2\<lparr>BidFloor := 0.01, BidFloorCur := ''USD''\<rparr>)"

text \<open>\<open>&openrtb2.Site{}\<close>: a new Site object with every field zero.\<close>

definition new_Site :: "heap \<Rightarrow> addr \<times> heap" where
  "new_Site h =
     (free h,
      h\<lparr>site_at := (site_at h)(free h := \<lparr>Domain' = [], Page = [], site_other = []\<rparr>),
        free := Suc (free h)\<rparr>)"

text \<open>An assignment to the field \<open>Page\<close> through a Site pointer.\<close>

definition set_Page :: "heap \<Rightarrow> addr \<Rightarrow> string \<Rightarrow> heap" where
  "set_Page h p s = h\<lparr>site_at := (site_at h)(p := (site_at h p)\<lparr>Page := s\<rparr>)\<rparr>"

text \<open>What \<open>json.Marshal\<close> reads of a request: the request with its Site pointer followed.\<close>

definition deref :: "heap \<Rightarrow> addr bid_request \<Rightarrow> site bid_request" where
  "deref h r =
     \<lparr>Imp = Imp r, Site = map_option (site_at h) (Site r), Test = Test r, TMax = TMax r,
      AT = AT r, request_other = request_other r\<rparr>"

definition headers :: "string \<rightharpoonup> string" where
  "headers =
     [''Content-Type'' \<mapsto> ''application/json;charset=utf-8'',
      ''Accept'' \<mapsto> ''application/json'',
      ''X-Openrtb-Version'' \<mapsto> ''2.5'']"

text \<open>
  \<open>MakeRequests\<close>. \<open>enrichedRequest := *request\<close> copies the struct, so the copy holds the
  same Site pointer as the caller's request; the write to \<open>enrichedRequest.Site.Page\<close> is
  a write to the heap.
\<close>

definition MakeRequests ::
  "(string \<Rightarrow> string) \<Rightarrow> (site bid_request \<Rightarrow> error + string) \<Rightarrow>
   SmartAdServerAdapter \<Rightarrow> heap \<Rightarrow> addr bid_request \<Rightarrow> requests_outcome" where
  "MakeRequests qs json_Marshal_request a h request =
     (case Imp request of
        [] \<Rightarrow> Returned [] [Error ''no impressions in bid request''] h
      | imp0 # _ \<Rightarrow>
          (case Site request of
             None \<Rightarrow> Panic
           | Some sp \<Rightarrow>
               (case json_Marshal qs (impExt a (Domain' (site_at h sp))) of
                  Inl err \<Rightarrow>
                    Returned [] [Error (''error marshaling imp.ext: '' @ message err)] h
                | Inr impExtJSON \<Rightarrow>
                    (let imp1 = enrich_imp imp0 impExtJSON;
                         enrichedRequest =
                           request\<lparr>Imp := [imp1], Test := 1, TMax := 1000, AT := 1\<rparr>;
                         (enrichedRequest, h) =
                           (case Site enrichedRequest of
                              None \<Rightarrow>
                                (let (p, h') = new_Site h
                                 in (enrichedRequest\<lparr>Site := Some p\<rparr>, h'))
                            | Some _ \<Rightarrow> (enrichedRequest, h))
                     in case Site enrichedRequest of
                          None \<Rightarrow> Panic
                        | Some ep \<Rightarrow>
                            (let h =
                               (if Page (site_at h ep) = []
                                then (case Site request of
                                        None \<Rightarrow> h
                                      | Some rp \<Rightarrow>
                                          if Domain' (site_at h rp) \<noteq> []
                                          then set_Page h ep
                                                 (''https://'' @ Domain' (site_at h rp))
                                          else h)
                                else h)
                             in case json_Marshal_request (deref h enrichedRequest) of
                                  Inl err \<Rightarrow> Returned [] [err] h
                                | Inr reqBody \<Rightarrow>
                                    Returned
                                      [\<lparr>Method = ''POST'', Uri = endpoint a, Body = reqBody,
                                        Headers = headers\<rparr>]
                                      [] h)))))"

subsection \<open>\<open>MakeBids\<close>\<close>

text \<open>The inner loop of lines 210 to 215 over the bids of one seat.\<close>

fun append_bids :: "'b list \<Rightarrow> 'b typed_bid list \<Rightarrow> 'b typed_bid list" where
  "append_bids [] bids = bids"
| "append_bids (b # bs) bids = append_bids bs (bids @ [\<lparr>Bid' = b, BidType = ''banner''\<rparr>])"

text \<open>The outer loop of line 209 over the seats.\<close>

fun append_seats :: "'b seat_bid list \<Rightarrow> 'b typed_bid list \<Rightarrow> 'b typed_bid list" where
  "append_seats [] bids = bids"
| "append_seats (seatBid # rest) bids = append_seats rest (append_bids (Bid seatBid) bids)"

text \<open>
  \<open>MakeBids\<close>. The request and the memory it points into are arguments, as in the source.
\<close>

definition MakeBids ::
  "(string \<Rightarrow> error + 'b bid_response) \<Rightarrow> SmartAdServerAdapter \<Rightarrow> heap \<Rightarrow>
   addr bid_request \<Rightarrow> http_response \<Rightarrow> 'b bidder_response option \<times> error list" where
  "MakeBids json_Unmarshal a h request response =
     (if StatusCode response = 204 then (None, [])
      else if StatusCode response = 400
      then (None, [Error (''Bad request: '' @ Body' response)])
      else if StatusCode response = 404
      then (None, [Error (''404 Not Found: '' @ Body' response)])
      else if StatusCode response \<noteq> 200
      then (None, [Error (''Unexpected status code: '' @ fmt_d (StatusCode response) @
                          ''. Body: '' @ Body' response)])
      else
        (case json_Unmarshal (Body' response) of
           Inl err \<Rightarrow> (None, [err])
         | Inr bidResp \<Rightarrow> (Some \<lparr>Bids = append_seats (SeatBid bidResp) []\<rparr>, [])))"

subsection \<open>Derived notions used in the statements\<close>

text \<open>
  Lines 136 to 138 when the copy still holds the caller's Site pointer \<open>sp\<close>: the page of
  that Site is filled in from its domain when the page is empty and the domain is not.
\<close>

definition synth_Page :: "heap \<Rightarrow> addr \<Rightarrow> heap" where
  "synth_Page h sp =
     (if Page (site_at h sp) = [] \<and> Domain' (site_at h sp) \<noteq> []
      then set_Page h sp (''https://'' @ Domain' (site_at h sp)) else h)"

subsection \<open>Example inputs\<close>

definition example_adapter :: SmartAdServerAdapter where
  "example_adapter =
     \<lparr>endpoint = ''https://prg.smartadserver.com/prebid/v1'', platformID = 7,
      defaultConfig = \<lparr>SiteID = 1, PageID = 2, FormatID = 3, PlatformID = 4\<rparr>\<rparr>"

text \<open>The quoting of a string that needs no escape.\<close>

definition example_quote :: "string \<Rightarrow> string" where
  "example_quote s = CHR 0x22 # s @ [CHR 0x22]"

text \<open>
  An encoder that accepts one request only: when a call that uses it returns a body,
  the request that was serialized is \<open>er\<close>.
\<close>

definition accepts_only ::
  "site bid_request \<Rightarrow> string \<Rightarrow> site bid_request \<Rightarrow> error + string" where
  "accepts_only er body r =
     (if r = er then Inr body else Inl (Error ''json: unsupported value''))"

definition example_decoder :: "string \<Rightarrow> error + string bid_response" where
  "example_decoder body =
     (if body = ''two seats''
      then Inr \<lparr>SeatBid = [\<lparr>Bid = [''bid-1''], seat_other = []\<rparr>,
                            \<lparr>Bid = [''bid-2''], seat_other = []\<rparr>],
                response_other = []\<rparr>
      else if body = ''no seats'' then Inr \<lparr>SeatBid = [], response_other = []\<rparr>
      else Inl (Error ''unexpected end of JSON input''))"

text \<open>A decoder of configurations that knows one disabled configuration.\<close>

definition example_yaml :: "string \<Rightarrow> error + PBSConfig" where
  "example_yaml config =
     (if config = ''adapters: {smartadserver: {enabled: false}}''
      then Inr \<lparr>Adapters = \<lparr>SmartAdServer =
                 \<lparr>Enabled = False, Endpoint = [], PlatformID' = 0,
                  DefaultConfig = \<lparr>SiteID = 0, PageID = 0, FormatID = 0, PlatformID = 0\<rparr>\<rparr>\<rparr>\<rparr>
      else Inl (Error ''yaml: did not find expected node content''))"

text \<open>The scenario of the specification: one impression with id 1, a Site with a domain.\<close>

definition example_heap :: heap where
  "example_heap =
     \<lparr>site_at = (\<lambda>_. \<lparr>Domain' = ''example.com'', Page = [], site_other = []\<rparr>), free = 1\<rparr>"

definition example_request :: "addr bid_request" where
  "example_request =
     \<lparr>Imp = [\<lparr>ID = ''1'', Banner = None, BidFloor = 0, BidFloorCur = [], Ext = [],
              imp_other = []\<rparr>],
      Site = Some 0, Test = 0, TMax = 0, AT = 0, request_other = []\<rparr>"

text \<open>
  The same request held a second time, at another address of another memory, and an
  encoder whose output shows the page of the Site it is given.
\<close>

definition other_heap :: heap where
  "other_heap =
     \<lparr>site_at = (\<lambda>p. if p = 5
                       then \<lparr>Domain' = ''example.com'', Page = [], site_other = []\<rparr>
                       else \<lparr>Domain' = ''other.org'', Page = ''https://other.org/news'',
                             site_other = [(''id'', ''42'')]\<rparr>),
      free = 9\<rparr>"

definition example_encoder :: "site bid_request \<Rightarrow> error + string" where
  "example_encoder r = Inr (case Site r of None \<Rightarrow> ''{}'' | Some s \<Rightarrow> Page s)"

definition other_request :: "addr bid_request" where
  "other_request = example_request\<lparr>Site := Some 5\<rparr>"

definition request_without_Site :: "addr bid_request" where
  "request_without_Site = example_request\<lparr>Site := None\<rparr>"

text \<open>A banner that gives its size by width and height and has no format list.\<close>

definition request_without_Format :: "addr bid_request" where
  "request_without_Format =
     example_request
       \<lparr>Imp := [\<lparr>ID = ''1'',
                 Banner = Some \<lparr>Format = [], banner_other = [(''w'', ''300''), (''h'', ''250'')]\<rparr>,
                 BidFloor = 0, BidFloorCur = [], Ext = [], imp_other = []\<rparr>]\<rparr>"

definition derived_without_Format :: "site bid_request" where
  "derived_without_Format =
     \<lparr>Imp = [\<lparr>ID = ''1'',
               Banner = Some \<lparr>Format = [], banner_other = [(''w'', ''300''), (''h'', ''250'')]\<rparr>,
               BidFloor = 0.01, BidFloorCur = ''USD'',
               Ext = projr (json_Marshal example_quote (impExt example_adapter ''example.com'')),
               imp_other = []\<rparr>],
      Site = Some \<lparr>Domain' = ''example.com'', Page = ''https://example.com'', site_other = []\<rparr>,
      Test = 1, TMax = 1000, AT = 1, request_other = []\<rparr>"

section \<open>Properties of \<open>BuildBidder\<close>\<close>

text \<open>
  C6: a configuration that decodes with \<open>enabled = false\<close> makes \<open>BuildBidder\<close> return an
  error and no adapter; a configuration that does not decode makes it return the parse
  error, which carries the decoder's message, and no adapter. An adapter is returned only
  for a configuration that decodes and is enabled.
\<close>

theorem BuildBidder_fails_closed:
  "(yaml_Unmarshal config = Inr c \<and> \<not> Enabled (SmartAdServer (Adapters c)) \<longrightarrow>
      BuildBidder yaml_Unmarshal config =
        Inl (Error ''SmartAdServer adapter is not enabled in config'')) \<and>
   (yaml_Unmarshal config = Inl err \<longrightarrow>
      BuildBidder yaml_Unmarshal config =
        Inl (Error (''error parsing PBS config: '' @ message err))) \<and>
   (BuildBidder yaml_Unmarshal config = Inr ad \<longrightarrow>
      (\<exists>c'. yaml_Unmarshal config = Inr c' \<and> Enabled (SmartAdServer (Adapters c'))))"
  by (auto simp: BuildBidder_def split: sum.splits if_splits)

theorem BuildBidder_fails_closed_witness:
  "BuildBidder example_yaml ''adapters: {smartadserver: {enabled: false}}'' =
     Inl (Error ''SmartAdServer adapter is not enabled in config'') \<and>
   BuildBidder example_yaml ''adapters: ['' =
     Inl (Error ''error parsing PBS config: yaml: did not find expected node content'')"
  using
    BuildBidder_fails_closed [where yaml_Unmarshal = example_yaml
      and config = "''adapters: {smartadserver: {enabled: false}}''"
      and c = "\<lparr>Adapters = \<lparr>SmartAdServer =
                 \<lparr>Enabled = False, Endpoint = [], PlatformID' = 0,
                  DefaultConfig = \<lparr>SiteID = 0, PageID = 0, FormatID = 0, PlatformID = 0\<rparr>\<rparr>\<rparr>\<rparr>"]
    BuildBidder_fails_closed [where yaml_Unmarshal = example_yaml
      and config = "''adapters: [''"
      and err = "Error ''yaml: did not find expected node content''"]
  by (simp add: example_yaml_def)

section \<open>Properties of \<open>MakeBids\<close>\<close>

lemma append_bids_eq:
  "append_bids bs bids = bids @ map (\<lambda>b. \<lparr>Bid' = b, BidType = ''banner''\<rparr>) bs"
  by (induction bs arbitrary: bids) simp_all

lemma append_seats_eq:
  "append_seats seats bids =
     bids @ map (\<lambda>b. \<lparr>Bid' = b, BidType = ''banner''\<rparr>) (concat (map Bid seats))"
  by (induction seats arbitrary: bids) (simp_all add: append_bids_eq)

text \<open>
  C2: the status table of \<open>MakeBids\<close>. 204 gives no response and no error; 400 and 404
  give one error whose message ends with the raw body; any status other than 200, 204,
  400 and 404 gives one error whose message carries the code and the body; 200 gives
  what decoding the body gives. Only 200 reaches the decoder: for every other status the
  result is the same whatever the decoder is.
\<close>

theorem MakeBids_status_table:
  "(StatusCode response = 204 \<longrightarrow> MakeBids um a h request response = (None, [])) \<and>
   (StatusCode response = 400 \<longrightarrow>
      MakeBids um a h request response = (None, [Error (''Bad request: '' @ Body' response)])) \<and>
   (StatusCode response = 404 \<longrightarrow>
      MakeBids um a h request response =
        (None, [Error (''404 Not Found: '' @ Body' response)])) \<and>
   (StatusCode response \<notin> {200, 204, 400, 404} \<longrightarrow>
      MakeBids um a h request response =
        (None, [Error (''Unexpected status code: '' @ fmt_d (StatusCode response) @
                       ''. Body: '' @ Body' response)])) \<and>
   (StatusCode response = 200 \<longrightarrow>
      MakeBids um a h request response =
        (case um (Body' response) of
           Inl err \<Rightarrow> (None, [err])
         | Inr bidResp \<Rightarrow> (Some \<lparr>Bids = append_seats (SeatBid bidResp) []\<rparr>, []))) \<and>
   (StatusCode response \<noteq> 200 \<longrightarrow>
      MakeBids um a h request response = MakeBids um' a h request response)"
  by (simp add: MakeBids_def)

theorem MakeBids_status_table_witness:
  "MakeBids example_decoder example_adapter example_heap example_request
     \<lparr>StatusCode = 204, Body' = [], Headers' = Map.empty\<rparr> = (None, []) \<and>
   MakeBids example_decoder example_adapter example_heap example_request
     \<lparr>StatusCode = 400, Body' = ''bad imp'', Headers' = Map.empty\<rparr> =
     (None, [Error ''Bad request: bad imp'']) \<and>
   MakeBids example_decoder example_adapter example_heap example_request
     \<lparr>StatusCode = 404, Body' = ''no such page'', Headers' = Map.empty\<rparr> =
     (None, [Error ''404 Not Found: no such page'']) \<and>
   MakeBids example_decoder example_adapter example_heap example_request
     \<lparr>StatusCode = 503, Body' = ''busy'', Headers' = Map.empty\<rparr> =
     (None, [Error ''Unexpected status code: 503. Body: busy'']) \<and>
   MakeBids example_decoder example_adapter example_heap example_request
     \<lparr>StatusCode = 200, Body' = ''garbage'', Headers' = Map.empty\<rparr> =
     (None, [Error ''unexpected end of JSON input''])"
  using
    MakeBids_status_table [of "\<lparr>StatusCode = 204, Body' = [], Headers' = Map.empty\<rparr>"
      example_decoder example_adapter example_heap example_request example_decoder]
    MakeBids_status_table [of "\<lparr>StatusCode = 400, Body' = ''bad imp'', Headers' = Map.empty\<rparr>"
      example_decoder example_adapter example_heap example_request example_decoder]
    MakeBids_status_table [of "\<lparr>StatusCode = 404, Body' = ''no such page'', Headers' = Map.empty\<rparr>"
      example_decoder example_adapter example_heap example_request example_decoder]
    MakeBids_status_table [of "\<lparr>StatusCode = 503, Body' = ''busy'', Headers' = Map.empty\<rparr>"
      example_decoder example_adapter example_heap example_request example_decoder]
    MakeBids_status_table [of "\<lparr>StatusCode = 200, Body' = ''garbage'', Headers' = Map.empty\<rparr>"
      example_decoder example_adapter example_heap example_request example_decoder]
  by (simp add: example_decoder_def fmt_d_def)

text \<open>
  C5: on status 200 with a body that decodes, \<open>MakeBids\<close> returns no error and the bids
  of all seats in order, one typed bid per bid, each tagged \<open>banner\<close>; the number of
  typed bids is the total number of bids over the seats; with no seat the list is empty.
\<close>

theorem MakeBids_flattens:
  assumes "StatusCode response = 200" and "um (Body' response) = Inr bidResp"
  shows "MakeBids um a h request response =
           (Some \<lparr>Bids = map (\<lambda>b. \<lparr>Bid' = b, BidType = ''banner''\<rparr>)
                           (concat (map Bid (SeatBid bidResp)))\<rparr>, []) \<and>
         length (Bids (the (fst (MakeBids um a h request response)))) =
           sum_list (map (\<lambda>seat. length (Bid seat)) (SeatBid bidResp)) \<and>
         (\<forall>tb \<in> set (Bids (the (fst (MakeBids um a h request response)))).
            BidType tb = ''banner'') \<and>
         (SeatBid bidResp = [] \<longrightarrow>
            MakeBids um a h request response = (Some \<lparr>Bids = []\<rparr>, []))"
proof -
  have r: "MakeBids um a h request response =
           (Some \<lparr>Bids = map (\<lambda>b. \<lparr>Bid' = b, BidType = ''banner''\<rparr>)
                           (concat (map Bid (SeatBid bidResp)))\<rparr>, [])"
    using assms by (simp add: MakeBids_def append_seats_eq)
  have len: "length (concat (map Bid (SeatBid bidResp))) =
             sum_list (map (\<lambda>seat. length (Bid seat)) (SeatBid bidResp))"
    by (simp add: length_concat comp_def)
  show ?thesis
    using len by (auto simp: r)
qed

theorem MakeBids_flattens_witness:
  "MakeBids example_decoder example_adapter example_heap example_request
     \<lparr>StatusCode = 200, Body' = ''two seats'', Headers' = Map.empty\<rparr> =
     (Some \<lparr>Bids = [\<lparr>Bid' = ''bid-1'', BidType = ''banner''\<rparr>,
                    \<lparr>Bid' = ''bid-2'', BidType = ''banner''\<rparr>]\<rparr>, [])"
  using MakeBids_flattens [of "\<lparr>StatusCode = 200, Body' = ''two seats'', Headers' = Map.empty\<rparr>"
    example_decoder
    "\<lparr>SeatBid = [\<lparr>Bid = [''bid-1''], seat_other = []\<rparr>, \<lparr>Bid = [''bid-2''], seat_other = []\<rparr>],
      response_other = []\<rparr>" example_adapter example_heap example_request]
  by (simp add: example_decoder_def)

text \<open>
  C10: the result of \<open>MakeBids\<close> is the same for any two requests, and any two states of
  the memory the requests point into: it depends on the response (and the decoder) only.
\<close>

theorem MakeBids_ignores_request:
  "MakeBids um a h request response = MakeBids um a h' request' response"
  by (simp add: MakeBids_def)

section \<open>Properties of \<open>MakeRequests\<close>\<close>

subsection \<open>The extension\<close>

lemma json_Marshal_supported:
  "ints_and_strings v \<Longrightarrow> \<exists>text. json_Marshal qs v = Inr text"
  "entries_ints_and_strings kvs \<Longrightarrow> \<exists>kts. marshal_entries qs kvs = Inr kts"
  by (induction qs v and qs kvs rule: json_Marshal_marshal_entries.induct)
     (auto split: if_splits)

lemma impExt_ints_and_strings: "ints_and_strings (impExt a d)"
  by (simp add: impExt_def)

text \<open>
  The bytes of the extension: the members of the innermost object sorted by key, the
  platform id under \<open>networkId\<close>, the Site's domain under \<open>domain\<close>.
\<close>

lemma json_Marshal_impExt:
  "json_Marshal qs (impExt a d) =
     Inr (''{'' @ qs ''prebid'' @ '':{'' @ qs ''bidder'' @ '':{'' @ qs ''smartadserver'' @
          '':{'' @ qs ''domain'' @ '':'' @ qs d @
          '','' @ qs ''formatId'' @ '':'' @ fmt_d (FormatID (defaultConfig a)) @
          '','' @ qs ''networkId'' @ '':'' @ fmt_d (platformID a) @
          '','' @ qs ''pageId'' @ '':'' @ fmt_d (PageID (defaultConfig a)) @
          '','' @ qs ''siteId'' @ '':'' @ fmt_d (SiteID (defaultConfig a)) @
          '','' @ qs ''target'' @ '':'' @ qs ''testing=prebid'' @ ''}}}}'')"
  by (simp add: impExt_def)

lemma enrich_imp_simps:
  "BidFloor (enrich_imp i ext) = 0.01"
  "BidFloorCur (enrich_imp i ext) = ''USD''"
  "Ext (enrich_imp i ext) = ext"
  "ID (enrich_imp i ext) = ID i"
  "imp_other (enrich_imp i ext) = imp_other i"
  "Banner (enrich_imp i ext) =
     (case Banner i of
        None \<Rightarrow> Some \<lparr>Format = [\<lparr>W = 728, H = 90\<rparr>], banner_other = []\<rparr>
      | Some b \<Rightarrow> Some b)"
  by (simp_all add: enrich_imp_def Let_def split: option.splits)

subsection \<open>The three ways a call ends\<close>

lemma MakeRequests_no_Imp:
  "Imp request = [] \<Longrightarrow>
   MakeRequests qs mr a h request = Returned [] [Error ''no impressions in bid request''] h"
  by (simp add: MakeRequests_def)

lemma MakeRequests_no_Site:
  "Imp request \<noteq> [] \<Longrightarrow> Site request = None \<Longrightarrow> MakeRequests qs mr a h request = Panic"
  by (cases "Imp request") (simp_all add: MakeRequests_def)

text \<open>
  With an impression and a Site the call serializes the derived request: the first
  impression enriched and alone, \<open>test = 1\<close>, \<open>tmax = 1000\<close>, \<open>at = 1\<close>, the other fields
  copied, and the caller's Site with its page filled in.
\<close>

lemma MakeRequests_with_Site:
  assumes "Imp request = fst_imp # rest" and "Site request = Some sp"
    and "json_Marshal qs (impExt a (Domain' (site_at h sp))) = Inr ext"
  shows "MakeRequests qs mr a h request =
     (case mr \<lparr>Imp = [enrich_imp fst_imp ext], Site = Some (site_at (synth_Page h sp) sp),
               Test = 1, TMax = 1000, AT = 1, request_other = request_other request\<rparr> of
        Inl err \<Rightarrow> Returned [] [err] (synth_Page h sp)
      | Inr reqBody \<Rightarrow>
          Returned [\<lparr>Method = ''POST'', Uri = endpoint a, Body = reqBody, Headers = headers\<rparr>] []
            (synth_Page h sp))"
  using assms by (simp add: MakeRequests_def Let_def deref_def synth_Page_def split: sum.splits)

lemma Domain_synth_Page: "Domain' (site_at (synth_Page h sp) p) = Domain' (site_at h p)"
  by (simp add: synth_Page_def set_Page_def)

lemma synth_Page_idem: "synth_Page (synth_Page h sp) sp = synth_Page h sp"
  by (simp add: synth_Page_def set_Page_def)

lemma MakeRequests_returns:
  assumes "Imp request = fst_imp # rest" and "Site request = Some sp"
  shows "\<exists>reqs errs. MakeRequests qs mr a h request = Returned reqs errs (synth_Page h sp) \<and>
           ((length reqs = 1 \<and> errs = []) \<or> (reqs = [] \<and> length errs = 1))"
  using MakeRequests_with_Site [OF assms json_Marshal_impExt, where mr = mr]
  by (auto split: sum.splits)

text \<open>Every call that returns has one request and no error, or no request and one error.\<close>

lemma MakeRequests_returns_shape:
  assumes "MakeRequests qs mr a h request = Returned reqs errs h'"
  shows "(length reqs = 1 \<and> errs = []) \<or> (reqs = [] \<and> length errs = 1)"
proof (cases "Imp request")
  case Nil
  with assms show ?thesis by (auto simp: MakeRequests_no_Imp)
next
  case (Cons fst_imp rest)
  show ?thesis
  proof (cases "Site request")
    case None
    with Cons assms show ?thesis by (simp add: MakeRequests_no_Site)
  next
    case (Some sp)
    from MakeRequests_returns [OF Cons Some, where qs = qs and mr = mr and a = a and h = h] assms
    show ?thesis by auto
  qed
qed

subsection \<open>The claims about \<open>MakeRequests\<close>\<close>

text \<open>
  C1, as amended: for every request with at least one impression and a Site,
  \<open>MakeRequests\<close> serializes a derived request with exactly one impression, which has bid
  floor 0.01, bid floor currency USD and a Banner: the impression's own Banner, whatever
  its format list, when it has one, and the default Banner with the single format 728x90
  when it has none. When the encoder returns a body the call returns exactly one wire
  request with that body and no error; when the encoder fails the call returns no
  request and the encoder's error.
\<close>

theorem MakeRequests_one_request:
  assumes "Imp request = fst_imp # rest" and "Site request = Some sp"
  shows "\<exists>er i h'.
           Imp er = [i] \<and> BidFloor i = 0.01 \<and> BidFloorCur i = ''USD'' \<and>
           Banner i =
             (case Banner fst_imp of
                None \<Rightarrow> Some \<lparr>Format = [\<lparr>W = 728, H = 90\<rparr>], banner_other = []\<rparr>
              | Some b \<Rightarrow> Some b) \<and>
           (case mr er of
              Inl err \<Rightarrow> MakeRequests qs mr a h request = Returned [] [err] h'
            | Inr body \<Rightarrow>
                MakeRequests qs mr a h request =
                  Returned [\<lparr>Method = ''POST'', Uri = endpoint a, Body = body,
                             Headers = headers\<rparr>] [] h')"
proof -
  obtain ext where ext: "json_Marshal qs (impExt a (Domain' (site_at h sp))) = Inr ext"
    using json_Marshal_impExt by blast
  let ?er = "\<lparr>Imp = [enrich_imp fst_imp ext], Site = Some (site_at (synth_Page h sp) sp),
              Test = 1, TMax = 1000, AT = 1, request_other = request_other request\<rparr>"
  have "Imp ?er = [enrich_imp fst_imp ext]" by simp
  moreover have "case mr ?er of
      Inl err \<Rightarrow> MakeRequests qs mr a h request = Returned [] [err] (synth_Page h sp)
    | Inr body \<Rightarrow>
        MakeRequests qs mr a h request =
          Returned [\<lparr>Method = ''POST'', Uri = endpoint a, Body = body, Headers = headers\<rparr>] []
            (synth_Page h sp)"
    by (simp add: MakeRequests_with_Site [OF assms ext] split: sum.splits)
  ultimately show ?thesis
    using enrich_imp_simps by blast
qed

theorem MakeRequests_one_request_witness:
  "\<exists>h'. MakeRequests example_quote (\<lambda>_. Inr ''{}'') example_adapter example_heap example_request =
          Returned [\<lparr>Method = ''POST'', Uri = endpoint example_adapter, Body = ''{}'',
                     Headers = headers\<rparr>] [] h'"
  using MakeRequests_one_request [where request = example_request and rest = "[]" and sp = 0
      and fst_imp = "\<lparr>ID = ''1'', Banner = None, BidFloor = 0, BidFloorCur = [], Ext = [],
                      imp_other = []\<rparr>"
      and mr = "\<lambda>_. Inr ''{}''" and qs = example_quote and a = example_adapter
      and h = example_heap]
  by (auto simp: example_request_def)

text \<open>
  C1 as stated fails on an impression whose Banner has no format list: the call
  succeeds with one wire request, and the request it serialized (the only one the
  encoder accepts) has a Banner whose format list is empty.
\<close>

theorem MakeRequests_empty_Format:
  "MakeRequests example_quote (accepts_only derived_without_Format ''{}'') example_adapter
     example_heap request_without_Format =
     Returned [\<lparr>Method = ''POST'', Uri = endpoint example_adapter, Body = ''{}'',
                Headers = headers\<rparr>] []
       (set_Page example_heap 0 ''https://example.com'') \<and>
   map (\<lambda>i. map_option Format (Banner i)) (Imp derived_without_Format) = [Some []]"
  by (simp add: MakeRequests_with_Site [where rest = "[]" and sp = 0, OF _ _ json_Marshal_impExt]
      request_without_Format_def example_request_def example_heap_def derived_without_Format_def
      accepts_only_def json_Marshal_impExt enrich_imp_def synth_Page_def set_Page_def)

text \<open>
  C3: the claim is that the caller's request is left as it was. The copy made by
  \<open>MakeRequests\<close> shares the caller's Site, so for a request whose Site has a domain and
  an empty page the call returns with the page of the caller's Site overwritten: what
  the caller's request denotes after the call differs from what it denoted before.
\<close>

theorem MakeRequests_writes_callers_Site:
  assumes "Imp request \<noteq> []" and "Site request = Some sp"
    and "Page (site_at h sp) = []" and "Domain' (site_at h sp) \<noteq> []"
  shows "\<exists>reqs errs h'.
           MakeRequests qs mr a h request = Returned reqs errs h' \<and>
           Page (site_at h' sp) = ''https://'' @ Domain' (site_at h sp) \<and>
           deref h' request \<noteq> deref h request"
proof -
  obtain fst_imp rest where c: "Imp request = fst_imp # rest"
    using assms(1) by (cases "Imp request") auto
  obtain reqs errs where
    r: "MakeRequests qs mr a h request = Returned reqs errs (synth_Page h sp)"
    using MakeRequests_returns [OF c assms(2), where qs = qs and mr = mr and a = a and h = h]
    by blast
  have p: "Page (site_at (synth_Page h sp) sp) = ''https://'' @ Domain' (site_at h sp)"
    using assms(3,4) by (simp add: synth_Page_def set_Page_def)
  have "Site (deref (synth_Page h sp) request) \<noteq> Site (deref h request)"
  proof
    assume "Site (deref (synth_Page h sp) request) = Site (deref h request)"
    then have "site_at (synth_Page h sp) sp = site_at h sp"
      using assms(2) by (simp add: deref_def)
    then have "Page (site_at (synth_Page h sp) sp) = Page (site_at h sp)"
      by simp
    with p assms(3) show False by simp
  qed
  then have "deref (synth_Page h sp) request \<noteq> deref h request"
    by auto
  with r p show ?thesis by blast
qed

theorem MakeRequests_writes_callers_Site_witness:
  "\<exists>reqs errs h'.
     MakeRequests example_quote (\<lambda>_. Inr ''{}'') example_adapter example_heap example_request =
       Returned reqs errs h' \<and>
     Page (site_at example_heap 0) = [] \<and>
     Page (site_at h' 0) = ''https://example.com'' \<and>
     deref h' example_request \<noteq> deref example_heap example_request"
  using MakeRequests_writes_callers_Site [where request = example_request and sp = 0
      and h = example_heap and qs = example_quote and mr = "\<lambda>_. Inr ''{}''"
      and a = example_adapter]
  by (simp add: example_request_def example_heap_def)

text \<open>
  C4: the claim is that for a request without a Site an empty Site is synthesized. The
  domain for the extension is read through the Site pointer before the lines that
  synthesize a Site, so every request with an impression and no Site ends in a panic:
  nothing is derived and nothing is serialized.
\<close>

theorem MakeRequests_nil_Site_panics:
  assumes "Imp request \<noteq> []" and "Site request = None"
  shows "MakeRequests qs mr a h request = Panic"
  using assms by (rule MakeRequests_no_Site)

theorem MakeRequests_nil_Site_panics_witness:
  "MakeRequests example_quote (\<lambda>_. Inr ''{}'') example_adapter example_heap request_without_Site =
     Panic"
  using MakeRequests_nil_Site_panics [where request = request_without_Site]
  by (simp add: request_without_Site_def example_request_def)

text \<open>
  C7: the claim is that every call returns one request and no error, or no request and
  errors. On the request with one impression and no Site the call returns neither: it
  does not return.
\<close>

theorem MakeRequests_returns_nothing:
  "\<not> (\<exists>reqs errs h'.
        MakeRequests qs mr a h request_without_Site = Returned reqs errs h' \<and>
        ((length reqs = 1 \<and> errs = []) \<or> (reqs = [] \<and> errs \<noteq> [])))"
  by (simp add: MakeRequests_def request_without_Site_def example_request_def)

text \<open>
  Two calls on requests that denote the same value, wherever they and their Sites are
  held, end the same way.
\<close>

lemma site_at_synth_Page:
  "site_at (synth_Page h sp) sp =
     (if Page (site_at h sp) = [] \<and> Domain' (site_at h sp) \<noteq> []
      then (site_at h sp)\<lparr>Page := ''https://'' @ Domain' (site_at h sp)\<rparr>
      else site_at h sp)"
  by (simp add: synth_Page_def set_Page_def)

lemma MakeRequests_same_request:
  assumes eq: "deref h1 r1 = deref h2 r2"
  shows "(MakeRequests qs mr a h1 r1 = Panic \<and> MakeRequests qs mr a h2 r2 = Panic) \<or>
         (\<exists>reqs errs h1' h2'.
            MakeRequests qs mr a h1 r1 = Returned reqs errs h1' \<and>
            MakeRequests qs mr a h2 r2 = Returned reqs errs h2' \<and>
            deref h1' r1 = deref h2' r2)"
proof -
  from eq have imps: "Imp r1 = Imp r2"
    and sites: "map_option (site_at h1) (Site r1) = map_option (site_at h2) (Site r2)"
    and others: "request_other r1 = request_other r2"
    and rest: "Test r1 = Test r2" "TMax r1 = TMax r2" "AT r1 = AT r2"
    by (simp_all add: deref_def)
  show ?thesis
  proof (cases "Imp r1")
    case Nil
    with imps eq show ?thesis by (simp add: MakeRequests_no_Imp)
  next
    case (Cons fst_imp rest_imps)
    with imps have c2: "Imp r2 = fst_imp # rest_imps" by simp
    show ?thesis
    proof (cases "Site r1")
      case None
      with sites have "Site r2 = None" by simp
      with None Cons c2 show ?thesis by (simp add: MakeRequests_no_Site)
    next
      case (Some p1)
      with sites obtain p2 where s2: "Site r2 = Some p2" and same: "site_at h1 p1 = site_at h2 p2"
        by (cases "Site r2") auto
      have post: "site_at (synth_Page h1 p1) p1 = site_at (synth_Page h2 p2) p2"
        by (simp add: site_at_synth_Page same)
      have d: "deref (synth_Page h1 p1) r1 = deref (synth_Page h2 p2) r2"
        using imps others rest Some s2 post by (simp add: deref_def)
      have m1: "MakeRequests qs mr a h1 r1 =
         (case mr \<lparr>Imp = [enrich_imp fst_imp
                      (projr (json_Marshal qs (impExt a (Domain' (site_at h2 p2)))))],
                   Site = Some (site_at (synth_Page h2 p2) p2),
                   Test = 1, TMax = 1000, AT = 1, request_other = request_other r2\<rparr> of
            Inl err \<Rightarrow> Returned [] [err] (synth_Page h1 p1)
          | Inr reqBody \<Rightarrow>
              Returned [\<lparr>Method = ''POST'', Uri = endpoint a, Body = reqBody,
                         Headers = headers\<rparr>] [] (synth_Page h1 p1))"
        using MakeRequests_with_Site [OF Cons Some, where h = h1 and qs = qs and a = a and mr = mr
            and ext = "projr (json_Marshal qs (impExt a (Domain' (site_at h1 p1))))"]
        by (simp add: json_Marshal_impExt same post others)
      have m2: "MakeRequests qs mr a h2 r2 =
         (case mr \<lparr>Imp = [enrich_imp fst_imp
                      (projr (json_Marshal qs (impExt a (Domain' (site_at h2 p2)))))],
                   Site = Some (site_at (synth_Page h2 p2) p2),
                   Test = 1, TMax = 1000, AT = 1, request_other = request_other r2\<rparr> of
            Inl err \<Rightarrow> Returned [] [err] (synth_Page h2 p2)
          | Inr reqBody \<Rightarrow>
              Returned [\<lparr>Method = ''POST'', Uri = endpoint a, Body = reqBody,
                         Headers = headers\<rparr>] [] (synth_Page h2 p2))"
        by (rule MakeRequests_with_Site [OF c2 s2]) (simp add: json_Marshal_impExt)
      show ?thesis
        using d by (simp add: m1 m2 split: sum.splits)
    qed
  qed
qed

text \<open>A call repeated on the memory the first call left returns what the first returned.\<close>

lemma MakeRequests_again:
  assumes "MakeRequests qs mr a h request = Returned reqs errs h'"
  shows "MakeRequests qs mr a h' request = Returned reqs errs h'"
proof (cases "Imp request")
  case Nil
  with assms show ?thesis by (simp add: MakeRequests_no_Imp)
next
  case (Cons fst_imp rest)
  show ?thesis
  proof (cases "Site request")
    case None
    with Cons assms show ?thesis by (simp add: MakeRequests_no_Site)
  next
    case (Some sp)
    have first: "MakeRequests qs mr a h request =
        (case mr \<lparr>Imp = [enrich_imp fst_imp
                            (projr (json_Marshal qs (impExt a (Domain' (site_at h sp)))))],
                  Site = Some (site_at (synth_Page h sp) sp),
                  Test = 1, TMax = 1000, AT = 1, request_other = request_other request\<rparr> of
           Inl err \<Rightarrow> Returned [] [err] (synth_Page h sp)
         | Inr reqBody \<Rightarrow>
             Returned [\<lparr>Method = ''POST'', Uri = endpoint a, Body = reqBody,
                        Headers = headers\<rparr>] [] (synth_Page h sp))" for h
      by (rule MakeRequests_with_Site [OF Cons Some]) (simp add: json_Marshal_impExt)
    have h': "h' = synth_Page h sp"
      using assms by (simp add: first split: sum.splits)
    have "MakeRequests qs mr a (synth_Page h sp) request = MakeRequests qs mr a h request"
      by (simp only: first [of "synth_Page h sp"] first [of h] Domain_synth_Page synth_Page_idem)
    with assms h' show ?thesis by simp
  qed
qed

text \<open>
  C8: the wire requests \<open>MakeRequests\<close> returns depend on the configuration and on the
  value of the request only. Two calls with the same configuration on requests that
  denote the same value, in any two states of the memory and wherever the requests'
  Sites are held, both panic or both return, and then return the same wire requests
  (so the same bodies, byte for byte) and the same errors, and leave the two requests
  denoting the same value again. In particular a second call with the same request,
  made after the first has returned, returns the same wire requests and errors and
  leaves the memory as the first call left it.
\<close>

theorem MakeRequests_deterministic:
  "(deref h1 r1 = deref h2 r2 \<longrightarrow>
      (MakeRequests qs mr a h1 r1 = Panic \<and> MakeRequests qs mr a h2 r2 = Panic) \<or>
      (\<exists>reqs errs h1' h2'.
         MakeRequests qs mr a h1 r1 = Returned reqs errs h1' \<and>
         MakeRequests qs mr a h2 r2 = Returned reqs errs h2' \<and>
         deref h1' r1 = deref h2' r2)) \<and>
   (MakeRequests qs mr a h1 r1 = Returned reqs1 errs1 h1'' \<longrightarrow>
      MakeRequests qs mr a h1'' r1 = Returned reqs1 errs1 h1'')"
  using MakeRequests_same_request [of h1 r1 h2 r2 qs mr a]
    MakeRequests_again [of qs mr a h1 r1 reqs1 errs1 h1'']
  by blast

theorem MakeRequests_deterministic_witness:
  "deref example_heap example_request = deref other_heap other_request \<and>
   example_heap \<noteq> other_heap \<and>
   (\<exists>h2'. MakeRequests example_quote example_encoder example_adapter other_heap other_request =
            Returned [\<lparr>Method = ''POST'', Uri = endpoint example_adapter,
                       Body = ''https://example.com'', Headers = headers\<rparr>] [] h2') \<and>
   MakeRequests example_quote example_encoder example_adapter
     (set_Page example_heap 0 ''https://example.com'') example_request =
     Returned [\<lparr>Method = ''POST'', Uri = endpoint example_adapter,
                Body = ''https://example.com'', Headers = headers\<rparr>] []
       (set_Page example_heap 0 ''https://example.com'')"
proof -
  have first:
    "MakeRequests example_quote example_encoder example_adapter example_heap example_request =
       Returned [\<lparr>Method = ''POST'', Uri = endpoint example_adapter,
                  Body = ''https://example.com'', Headers = headers\<rparr>] []
         (set_Page example_heap 0 ''https://example.com'')"
    by (simp add: MakeRequests_with_Site [where rest = "[]" and sp = 0, OF _ _ json_Marshal_impExt]
        example_request_def example_heap_def synth_Page_def set_Page_def example_encoder_def)
  have same: "deref example_heap example_request = deref other_heap other_request"
    by (simp add: deref_def example_request_def other_request_def example_heap_def other_heap_def)
  have differ: "example_heap \<noteq> other_heap"
    by (simp add: example_heap_def other_heap_def)
  from first same differ
    MakeRequests_deterministic [where ?h1.0 = example_heap and ?r1.0 = example_request
      and ?h2.0 = other_heap and ?r2.0 = other_request and qs = example_quote
      and mr = example_encoder and a = example_adapter
      and ?reqs1.0 = "[\<lparr>Method = ''POST'', Uri = endpoint example_adapter,
                       Body = ''https://example.com'', Headers = headers\<rparr>]"
      and ?errs1.0 = "[]" and ?h1'' = "set_Page example_heap 0 ''https://example.com''"]
  show ?thesis by auto
qed

text \<open>
  C9: a request with at least one impression and a Site never makes \<open>MakeRequests\<close>
  panic. The call panics exactly when there is an impression and no Site, that is at
  the read of the Site's domain for the extension and nowhere else. Serializing the
  extension never fails, for any configuration and any domain: the extension is a
  nesting of maps with integers and strings at the leaves.
\<close>

theorem MakeRequests_no_fault:
  "(Imp request \<noteq> [] \<and> Site request = Some sp \<longrightarrow> MakeRequests qs mr a h request \<noteq> Panic) \<and>
   (MakeRequests qs mr a h request = Panic \<longleftrightarrow> Imp request \<noteq> [] \<and> Site request = None) \<and>
   ints_and_strings (impExt a d) \<and>
   (\<exists>ext. json_Marshal qs (impExt a d) = Inr ext)"
proof (cases "Imp request")
  case Nil
  then show ?thesis
    by (simp add: MakeRequests_no_Imp impExt_ints_and_strings json_Marshal_impExt)
next
  case (Cons fst_imp rest)
  show ?thesis
  proof (cases "Site request")
    case None
    with Cons show ?thesis
      by (simp add: MakeRequests_no_Site impExt_ints_and_strings json_Marshal_impExt)
  next
    case (Some p)
    have "MakeRequests qs mr a h request \<noteq> Panic"
      using MakeRequests_returns [OF Cons Some, where qs = qs and mr = mr and a = a and h = h]
      by auto
    with Cons Some show ?thesis
      by (simp add: impExt_ints_and_strings json_Marshal_impExt)
  qed
qed

theorem MakeRequests_no_fault_witness:
  "MakeRequests example_quote (\<lambda>_. Inr ''{}'') example_adapter example_heap example_request \<noteq> Panic \<and>
   MakeRequests example_quote (\<lambda>_. Inr ''{}'') example_adapter example_heap request_without_Site =
     Panic \<and>
   (\<exists>ext. json_Marshal example_quote (impExt example_adapter ''example.com'') = Inr ext)"
  using MakeRequests_no_fault [where request = example_request and sp = 0 and qs = example_quote
      and mr = "\<lambda>_. Inr ''{}''" and a = example_adapter and h = example_heap
      and d = "''example.com''"]
    MakeRequests_no_fault [where request = request_without_Site and sp = 0 and qs = example_quote
      and mr = "\<lambda>_. Inr ''{}''" and a = example_adapter and h = example_heap
      and d = "''example.com''"]
  by (simp add: example_request_def request_without_Site_def)

end
